theory Spec2Isabelle
  imports Complex_Main "HOL-Library.Multiset"
begin

section \<open>Shared vocabulary\<close>

text \<open>
  Python floats are modelled by the reals (rounding is not modelled); where the source can
  produce or meet a non-finite float (NaN, infinities) the value is an \<open>np_float\<close>.
  Every exception the modelled code can raise is a constructor of \<open>error\<close>.
\<close>

datatype error =
    AttributeError
  | IndexError
  | KeyError string
  | ZeroDivisionError
  | ConfigException string
  | StrategyException string

datatype np_float = Fin real | PInf | NInf | NaN

text \<open>Python's \<open>sub in s\<close> on strings: \<open>sub\<close> occurs in \<open>s\<close> as a contiguous substring.\<close>

fun startswith :: "string \<Rightarrow> string \<Rightarrow> bool" where
  "startswith [] s = True"
| "startswith (c # cs) [] = False"
| "startswith (c # cs) (d # ds) = (c = d \<and> startswith cs ds)"

fun str_in :: "string \<Rightarrow> string \<Rightarrow> bool" where
  "str_in sub [] = (sub = [])"
| "str_in sub (c # cs) = (startswith sub (c # cs) \<or> str_in sub cs)"

section \<open>base.py: data classes\<close>

text \<open>The dataclass \<open>POSITION\<close>, field by field (\<open>type\<close> is written \<open>pos_type\<close>).\<close>

record POSITION =
  code :: string
  mmd :: string
  pos_type :: "string option"
  balance :: real
  price :: real
  amount :: real
  loss_price :: "real option"
  open_date :: "string option"
  open_datetime :: "string option"
  close_datetime :: "string option"
  profit_rate :: real
  max_profit_rate :: real
  max_loss_rate :: real
  open_msg :: string
  close_msg :: string
  info :: "(string \<times> string) list option"

text \<open>
  The dataclass \<open>Operation\<close>. Its fields \<open>mmd\<close>, \<open>loss_price\<close>, \<open>info\<close> and \<open>msg\<close> carry
  the prefix \<open>op_\<close>, the names being taken by \<open>POSITION\<close>.
\<close>

record Operation =
  opt :: string
  op_mmd :: string
  op_loss_price :: "real option"
  op_info :: "(string \<times> string) list option"
  op_msg :: string

text \<open>
  The pattern engine's classes (\<open>chanlun.cl_interface\<close>) are declared outside the two
  source files; only the attributes read by \<open>base.py\<close> are modelled. \<open>Kline\<close> is a raw
  bar, \<open>CLKline\<close> a merged bar holding the raw bars it covers, \<open>FX\<close> a fractal with its
  supporting merged bars, \<open>BI\<close> a stroke (\<open>is_done()\<close> is the field \<open>bi_done\<close>, \<open>end\<close> is
  \<open>bi_end\<close>).
\<close>

record Kline =
  k_index :: int
  k_o :: real
  k_c :: real

record CLKline =
  clk_index :: int
  clk_klines :: "Kline list"

record FX =
  fx_type :: string
  fx_done :: bool
  fx_klines :: "CLKline list"

record BI =
  bi_type :: string
  bi_high :: real
  bi_low :: real
  bi_done :: bool
  bi_end :: FX

section \<open>base.py: trailing stop by stroke\<close>

text \<open>\<open>Strategy.last_done_bi\<close>: the first completed stroke of the reversed list.\<close>

definition last_done_bi :: "BI list \<Rightarrow> BI option" where
  "last_done_bi bis = List.find bi_done (rev bis)"

text \<open>
  \<open>Strategy.dynamic_change_loss_by_bi\<close>. The position is mutated in place; the model
  returns the updated position, or the exception. \<open>last_done_bi.type\<close> on \<open>None\<close> raises
  \<open>AttributeError\<close>; it is evaluated only when the substring test left of \<open>and\<close> holds.
\<close>

definition dynamic_change_loss_by_bi :: "POSITION \<Rightarrow> BI list \<Rightarrow> error + POSITION" where
  "dynamic_change_loss_by_bi pos bis =
     (case loss_price pos of
        None \<Rightarrow> Inr pos
      | Some lp \<Rightarrow>
          (case last_done_bi bis of
             None \<Rightarrow>
               (if str_in ''buy'' (mmd pos) then Inl AttributeError
                else if str_in ''sell'' (mmd pos) then Inl AttributeError
                else Inr pos)
           | Some b \<Rightarrow>
               (if str_in ''buy'' (mmd pos) \<and> bi_type b = ''up''
                  then Inr (pos\<lparr>loss_price := Some (max lp (bi_low b))\<rparr>)
                else if str_in ''sell'' (mmd pos) \<and> bi_type b = ''down''
                  then Inr (pos\<lparr>loss_price := Some (min lp (bi_high b))\<rparr>)
                else Inr pos)))"

text \<open>
  The position object as it stands after a call: an exception is raised before any
  assignment, so it leaves the object as it was.
\<close>

definition pos_after :: "POSITION \<Rightarrow> error + POSITION \<Rightarrow> POSITION" where
  "pos_after pos r = (case r of Inl e \<Rightarrow> pos | Inr pos' \<Rightarrow> pos')"

text \<open>Sample data used by the concrete instances below.\<close>

definition sample_fx :: FX where
  "sample_fx = \<lparr>fx_type = ''ding'', fx_done = True, fx_klines = []\<rparr>"

definition sample_pos :: "string \<Rightarrow> real \<Rightarrow> real option \<Rightarrow> POSITION" where
  "sample_pos m p lp =
     \<lparr>code = ''SH.600519'', mmd = m, pos_type = None, balance = 0, price = p, amount = 0,
      loss_price = lp, open_date = None, open_datetime = None, close_datetime = None,
      profit_rate = 0, max_profit_rate = 0, max_loss_rate = 0, open_msg = [], close_msg = [],
      info = None\<rparr>"

definition sample_bi :: "string \<Rightarrow> real \<Rightarrow> real \<Rightarrow> bool \<Rightarrow> BI" where
  "sample_bi t h l d = \<lparr>bi_type = t, bi_high = h, bi_low = l, bi_done = d, bi_end = sample_fx\<rparr>"

section \<open>base.py: give-back stop\<close>

text \<open>Python's \<open>/\<close> on floats raises \<open>ZeroDivisionError\<close> on a zero divisor.\<close>

definition py_div :: "real \<Rightarrow> real \<Rightarrow> error + real" where
  "py_div a b = (if b = 0 then Inl ZeroDivisionError else Inr (a / b))"

text \<open>
  Python's float arithmetic rounds each result to a double. The rounded operations are
  parameters of the model: \<open>f_sub\<close>, \<open>f_mul\<close> and \<open>f_div\<close> are any functions on the reals,
  IEEE double arithmetic among them; comparisons are exact. \<open>exact_ops\<close> is arithmetic
  without rounding. Division raises on a zero divisor whatever the rounding.
\<close>

record float_ops =
  f_sub :: "real \<Rightarrow> real \<Rightarrow> real"
  f_mul :: "real \<Rightarrow> real \<Rightarrow> real"
  f_div :: "real \<Rightarrow> real \<Rightarrow> real"

definition exact_ops :: float_ops where
  "exact_ops = \<lparr>f_sub = (\<lambda>a b. a - b), f_mul = (\<lambda>a b. a * b), f_div = (\<lambda>a b. a / b)\<rparr>"

definition py_truediv :: "float_ops \<Rightarrow> real \<Rightarrow> real \<Rightarrow> error + real" where
  "py_truediv fl a b = (if b = 0 then Inl ZeroDivisionError else Inr (f_div fl a b))"

text \<open>
  The message suffix of the give-back close, the four characters after the blank of
  \<open>'%s ...' % mmd\<close>, as its UTF-8 bytes.
\<close>

definition msg_back_return :: string where
  "msg_back_return =
     map char_of [0xE5, 0x9B, 0x9E, 0xE8, 0xB0, 0x83, 0xE6, 0xAD, 0xA2, 0xE6, 0x8D, 0x9F :: nat]"

text \<open>
  \<open>Strategy.check_back_return\<close>, in the float arithmetic \<open>fl\<close>. \<open>None\<close> for \<open>max_back_rate\<close> is
  \<open>None\<close> here too; the result \<open>Inr None\<close> is the Python \<open>None\<close>, \<open>Inr (Some op)\<close> the close
  operation.
\<close>

definition check_back_return ::
    "float_ops \<Rightarrow> string \<Rightarrow> POSITION \<Rightarrow> real \<Rightarrow> real option \<Rightarrow> error + Operation option" where
  "check_back_return fl m pos p max_back_rate =
     (case max_back_rate of
        None \<Rightarrow> Inr None
      | Some r \<Rightarrow>
          (case (if str_in ''sell'' m
                 then py_truediv fl (f_sub fl (price pos) p) (price pos)
                 else py_truediv fl (f_sub fl p (price pos)) (price pos)) of
             Inl e \<Rightarrow> Inl e
           | Inr q \<Rightarrow>
               (let profit_rate = f_mul fl q 100 in
                if profit_rate > 0 \<and> f_sub fl (max_profit_rate pos) profit_rate \<ge> r
                then Inr (Some \<lparr>opt = ''sell'', op_mmd = m, op_loss_price = None,
                                op_info = None, op_msg = m @ '' '' @ msg_back_return\<rparr>)
                else Inr None)))"

section \<open>base.py: strong pause of a stroke\<close>

text \<open>
  The pattern data \<open>ICL\<close>: \<open>get_klines()\<close> and \<open>get_config()\<close>. Python's \<open>xs[-1]\<close> raises
  \<open>IndexError\<close> on an empty list, \<open>d[k]\<close> raises \<open>KeyError\<close> on a missing key.
\<close>

record ICL =
  get_klines :: "Kline list"
  get_config :: "string \<rightharpoonup> string"

definition py_last :: "'a list \<Rightarrow> error + 'a" where
  "py_last xs = (case xs of [] \<Rightarrow> Inl IndexError | _ # _ \<Rightarrow> Inr (last xs))"

definition py_getitem :: "(string \<rightharpoonup> 'v) \<Rightarrow> string \<Rightarrow> error + 'v" where
  "py_getitem d k = (case d k of None \<Rightarrow> Inl (KeyError k) | Some v \<Rightarrow> Inr v)"

text \<open>
  \<open>Strategy.bi_qiang_td\<close>. The methods \<open>FX.low\<close> and \<open>FX.high\<close> (the band thresholds of
  a fractal for a given \<open>fx_qj\<close> setting) belong to the pattern engine and are parameters.
  After the peak branch's first two conjuncts hold and its third fails, the \<open>elif\<close> tests
  \<open>type == 'di'\<close>, which is false for a peak, and the function returns \<open>False\<close>.
\<close>

definition bi_qiang_td ::
    "(FX \<Rightarrow> string \<Rightarrow> real) \<Rightarrow> (FX \<Rightarrow> string \<Rightarrow> real) \<Rightarrow> BI \<Rightarrow> ICL \<Rightarrow> error + bool" where
  "bi_qiang_td fx_low fx_high bi cd =
     (if fx_done (bi_end bi) = False then Inr False
      else case py_last (get_klines cd) of
        Inl e \<Rightarrow> Inl e
      | Inr last_k \<Rightarrow>
       (case py_last (fx_klines (bi_end bi)) of
          Inl e \<Rightarrow> Inl e
        | Inr clk \<Rightarrow>
         (case py_last (clk_klines clk) of
            Inl e \<Rightarrow> Inl e
          | Inr k3 \<Rightarrow>
             if k_index last_k - k_index k3 > 2 then Inr False
             else if clk_index clk = k_index last_k then Inr False
             else if fx_type (bi_end bi) = ''ding'' \<and> k_o last_k > k_c last_k then
               (case py_getitem (get_config cd) ''fx_qj'' of
                  Inl e \<Rightarrow> Inl e
                | Inr q \<Rightarrow> Inr (k_c last_k < fx_low (bi_end bi) q))
             else if fx_type (bi_end bi) = ''di'' \<and> k_o last_k < k_c last_k then
               (case py_getitem (get_config cd) ''fx_qj'' of
                  Inl e \<Rightarrow> Inl e
                | Inr q \<Rightarrow> Inr (k_c last_k > fx_high (bi_end bi) q))
             else Inr False)))"

section \<open>base.py: divergence angle\<close>

text \<open>
  numpy's float division (no exception: a zero divisor gives an infinity or NaN). Signed
  zeros are not modelled: a zero divisor counts as \<open>+0.0\<close>.
\<close>

fun np_div :: "np_float \<Rightarrow> np_float \<Rightarrow> np_float" where
  "np_div NaN y = NaN"
| "np_div x NaN = NaN"
| "np_div (Fin a) (Fin b) =
     (if b \<noteq> 0 then Fin (a / b) else if a > 0 then PInf else if a < 0 then NInf else NaN)"
| "np_div (Fin a) y = Fin 0"
| "np_div PInf (Fin b) = (if b \<ge> 0 then PInf else NInf)"
| "np_div NInf (Fin b) = (if b \<ge> 0 then NInf else PInf)"
| "np_div x y = NaN"

text \<open>IEEE comparison \<open>\<le>\<close>: false as soon as one side is NaN.\<close>

fun np_le :: "np_float \<Rightarrow> np_float \<Rightarrow> bool" where
  "np_le (Fin a) (Fin b) = (a \<le> b)"
| "np_le NaN y = False"
| "np_le x NaN = False"
| "np_le NInf y = True"
| "np_le x PInf = True"
| "np_le x y = False"

definition np_ge :: "np_float \<Rightarrow> np_float \<Rightarrow> bool" where
  "np_ge x y = np_le y x"

text \<open>
  \<open>talib.MA(np.array(points), 2)\<close> of the TA-Lib library: the simple moving average over
  the current and the previous entry, stored at the current index; the first entry, which
  has no predecessor, is NaN. The library computes the averages in doubles from a running
  sum; \<open>talib_MA2\<close> gives the exact means, so on inputs where the doubles round it differs
  from the library in the values. What is stated of the extraction below is therefore
  stated for an arbitrary smoothed series.
\<close>

fun pair_means :: "real \<Rightarrow> real list \<Rightarrow> np_float list" where
  "pair_means prev [] = []"
| "pair_means prev (x # xs) = Fin ((prev + x) / 2) # pair_means x xs"

fun talib_MA2 :: "real list \<Rightarrow> np_float list" where
  "talib_MA2 [] = []"
| "talib_MA2 (x # xs) = NaN # pair_means x xs"

text \<open>
  The test \<open>points[i] is not None\<close> on an entry of a float array: the entry is a float,
  NaN included, never the object \<open>None\<close>.
\<close>

definition is_not_None :: "np_float \<Rightarrow> bool" where
  "is_not_None x = True"

fun new_points_from :: "int \<Rightarrow> np_float list \<Rightarrow> (int \<times> np_float) list" where
  "new_points_from i [] = []"
| "new_points_from i (p # ps) =
     (if is_not_None p then [(i, p)] else []) @ new_points_from (i + 1) ps"

definition new_points :: "np_float list \<Rightarrow> (int \<times> np_float) list" where
  "new_points sm = new_points_from 0 sm"

text \<open>The loop \<open>for i in range(1, len(new_points))\<close> collecting \<open>fxs\<close>, from index \<open>i\<close> on.\<close>

function fxs_loop :: "string \<Rightarrow> (int \<times> np_float) list \<Rightarrow> nat \<Rightarrow> (int \<times> np_float) list" where
  "fxs_loop position nps i =
     (if i < length nps then
        (let p1 = nps ! (i - 1);
             p2 = nps ! i;
             p3 = (if length nps > i + 1 then Some (nps ! (i + 1)) else None)
         in (if position = ''up'' \<and> np_le (snd p1) (snd p2)
                \<and> (case p3 of Some q \<Rightarrow> np_ge (snd p2) (snd q) | None \<Rightarrow> True)
               then [p2]
             else if position = ''down'' \<and> np_ge (snd p1) (snd p2)
                \<and> (case p3 of Some q \<Rightarrow> np_le (snd p2) (snd q) | None \<Rightarrow> True)
               then [p2]
             else [])
            @ fxs_loop position nps (i + 1))
      else [])"
  by pat_completeness auto
termination
  by (relation "measure (\<lambda>(position, nps, i). length nps - i)") auto

declare fxs_loop.simps [simp del]

definition find_fxs :: "string \<Rightarrow> (int \<times> np_float) list \<Rightarrow> (int \<times> np_float) list" where
  "find_fxs position nps = fxs_loop position nps 1"

text \<open>
  The values of the collected points as reals. A collected point passed a comparison, so
  its value is not NaN; sorting is modelled on the finite values only.
\<close>

fun fin_points :: "(int \<times> np_float) list \<Rightarrow> (int \<times> real) list" where
  "fin_points [] = []"
| "fin_points ((i, Fin v) # ps) = (i, v) # fin_points ps"
| "fin_points (p # ps) = fin_points ps"

text \<open>
  \<open>sorted(fxs, key=lambda f: f[1], reverse=...)\<close>: a stable sort, stable also when
  reversed (equal keys keep their original order).
\<close>

definition sorted_fxs :: "string \<Rightarrow> (int \<times> real) list \<Rightarrow> (int \<times> real) list" where
  "sorted_fxs position fxs =
     (if position = ''up'' then sort_key (\<lambda>f. - snd f) fxs else sort_key snd fxs)"

text \<open>\<open>math.degrees(math.atan(k))\<close>, with the values the library gives at the infinities.\<close>

fun atan_degrees :: "np_float \<Rightarrow> np_float" where
  "atan_degrees (Fin k) = Fin (arctan k * 180 / pi)"
| "atan_degrees PInf = Fin 90"
| "atan_degrees NInf = Fin (- 90)"
| "atan_degrees NaN = NaN"

definition jiaodu :: "int \<times> real \<Rightarrow> int \<times> real \<Rightarrow> np_float" where
  "jiaodu p1 p2 =
     atan_degrees (np_div (Fin (snd p1 - snd p2)) (Fin (real_of_int (fst p1 - fst p2))))"

text \<open>
  \<open>Strategy.points_jiaodu\<close>; \<open>extrema\<close> is its local list \<open>fxs\<close> as it stands before
  the sort.
\<close>

definition extrema :: "real list \<Rightarrow> string \<Rightarrow> (int \<times> np_float) list" where
  "extrema points position = find_fxs position (new_points (talib_MA2 points))"

definition points_jiaodu :: "real list \<Rightarrow> string \<Rightarrow> np_float" where
  "points_jiaodu points position =
     (if length points = 0 then Fin 0
      else
        (let fxs = extrema points position in
         if length fxs < 2 then Fin 0
         else
           (let s = sorted_fxs position (fin_points fxs) in jiaodu (s ! 0) (s ! 1))))"



text \<open>
  The test the loop applies to the entry at index \<open>j \<ge> 1\<close> of a smoothed series \<open>sm\<close>, whatever
  its values: a comparison with the entry to the left, and with the entry to the right
  where there is one.
\<close>

definition extremum_in :: "string \<Rightarrow> np_float list \<Rightarrow> nat \<Rightarrow> bool" where
  "extremum_in position sm j =
     ((position = ''up'' \<and> np_le (sm ! (j - 1)) (sm ! j)
         \<and> (j + 1 < length sm \<longrightarrow> np_ge (sm ! j) (sm ! (j + 1))))
      \<or> (position = ''down'' \<and> np_ge (sm ! (j - 1)) (sm ! j)
         \<and> (j + 1 < length sm \<longrightarrow> np_le (sm ! j) (sm ! (j + 1)))))"

text \<open>
  The extraction as the specification words it, for comparison with \<open>extrema\<close>: entries
  with an undefined smoothed value are discarded, and every retained point is compared
  with the neighbours it has, so that the first and the last retained point count on
  their single neighbour.
\<close>

definition spec_retained :: "np_float list \<Rightarrow> (int \<times> real) list" where
  "spec_retained sm = fin_points (new_points_from 0 sm)"

definition spec_is_extremum :: "string \<Rightarrow> real option \<Rightarrow> real \<Rightarrow> real option \<Rightarrow> bool" where
  "spec_is_extremum position left v right =
     ((position = ''up''
        \<and> (case left of None \<Rightarrow> True | Some l \<Rightarrow> l \<le> v)
        \<and> (case right of None \<Rightarrow> True | Some r \<Rightarrow> r \<le> v))
      \<or> (position = ''down''
        \<and> (case left of None \<Rightarrow> True | Some l \<Rightarrow> v \<le> l)
        \<and> (case right of None \<Rightarrow> True | Some r \<Rightarrow> v \<le> r)))"

fun spec_scan :: "string \<Rightarrow> real option \<Rightarrow> (int \<times> real) list \<Rightarrow> (int \<times> real) list" where
  "spec_scan position left [] = []"
| "spec_scan position left (p # ps) =
     (if spec_is_extremum position left (snd p)
           (case ps of [] \<Rightarrow> None | q # qs \<Rightarrow> Some (snd q))
      then [p] else [])
     @ spec_scan position (Some (snd p)) ps"

definition spec_extrema :: "real list \<Rightarrow> string \<Rightarrow> (int \<times> real) list" where
  "spec_extrema points position = spec_scan position None (spec_retained (talib_MA2 points))"

section \<open>backtest.py: the ratios of \<open>result\<close>\<close>

text \<open>
  The per-signal-type table. The counts \<open>win_num\<close> and \<open>loss_num\<close> are counters (natural
  numbers), the amounts Python floats; each \<open>/\<close> is Python's division, which raises on a
  zero divisor.
\<close>

definition shenglv :: "nat \<Rightarrow> nat \<Rightarrow> error + real" where
  "shenglv win_num loss_num =
     (if win_num = 0 \<and> loss_num = 0 then Inr 0
      else case py_div (real win_num) (real (win_num + loss_num)) of
             Inl e \<Rightarrow> Inl e | Inr q \<Rightarrow> Inr (q * 100))"

definition back_rate :: "real \<Rightarrow> real \<Rightarrow> error + real" where
  "back_rate win_balance loss_balance =
     (if win_balance = 0 then Inr 0
      else case py_div loss_balance win_balance of Inl e \<Rightarrow> Inl e | Inr q \<Rightarrow> Inr (q * 100))"

definition win_mean_balance :: "nat \<Rightarrow> real \<Rightarrow> error + real" where
  "win_mean_balance win_num win_balance =
     (if win_num = 0 then Inr 0 else py_div win_balance (real win_num))"

definition loss_mean_balance :: "nat \<Rightarrow> real \<Rightarrow> error + real" where
  "loss_mean_balance loss_num loss_balance =
     (if loss_num = 0 then Inr 0 else py_div loss_balance (real loss_num))"

definition ykb :: "real \<Rightarrow> real \<Rightarrow> error + real" where
  "ykb win_mean loss_mean =
     (if loss_mean = 0 \<or> win_mean = 0 then Inr 0 else py_div win_mean loss_mean)"

text \<open>
  The keys of the table \<open>mmds\<close> of \<open>result\<close>: the signal types the report knows; any other
  key of \<open>trader.results\<close> makes \<open>mmds[k]\<close> raise.
\<close>

definition mmds_keys :: "string list" where
  "mmds_keys = [''1buy'', ''2buy'', ''l2buy'', ''3buy'', ''l3buy'',
                ''down_pz_bc_buy'', ''down_qs_bc_buy'',
                ''1sell'', ''2sell'', ''l2sell'', ''3sell'', ''l3sell'',
                ''up_pz_bc_sell'', ''up_qs_bc_sell'']"

text \<open>
  The trade statistics, computed on numpy floats from the daily balance column
  \<open>df["balance"]\<close> and \<open>init_balance\<close>: \<open>highlevel\<close> is the running maximum, \<open>drawdown\<close>
  the distance to it, \<open>ddpercent\<close> its percentage, \<open>max_ddpercent\<close> the minimum of that
  column (pandas skips NaN), \<open>total_return\<close> the return in percent.
\<close>

fun np_scale :: "np_float \<Rightarrow> real \<Rightarrow> np_float" where
  "np_scale (Fin x) c = Fin (x * c)"
| "np_scale NaN c = NaN"
| "np_scale PInf c = (if c > 0 then PInf else if c < 0 then NInf else NaN)"
| "np_scale NInf c = (if c > 0 then NInf else if c < 0 then PInf else NaN)"

fun np_add :: "np_float \<Rightarrow> real \<Rightarrow> np_float" where
  "np_add (Fin x) c = Fin (x + c)"
| "np_add y c = y"

fun np_min2 :: "np_float \<Rightarrow> np_float \<Rightarrow> np_float" where
  "np_min2 NaN y = y"
| "np_min2 x NaN = x"
| "np_min2 x y = (if np_le x y then x else y)"

fun highlevel_from :: "real \<Rightarrow> real list \<Rightarrow> real list" where
  "highlevel_from h [] = []"
| "highlevel_from h (b # bs) = max h b # highlevel_from (max h b) bs"

definition highlevel :: "real list \<Rightarrow> real list" where
  "highlevel bs = (case bs of [] \<Rightarrow> [] | b # rest \<Rightarrow> b # highlevel_from b rest)"

definition ddpercent :: "real list \<Rightarrow> np_float list" where
  "ddpercent bs = map (\<lambda>(b, h). np_scale (np_div (Fin (b - h)) (Fin h)) 100) (zip bs (highlevel bs))"

definition max_ddpercent :: "real list \<Rightarrow> np_float" where
  "max_ddpercent bs = foldr np_min2 (ddpercent bs) NaN"

definition total_return :: "real \<Rightarrow> real list \<Rightarrow> error + np_float" where
  "total_return init_balance bs =
     (case py_last bs of
        Inl e \<Rightarrow> Inl e
      | Inr end_balance \<Rightarrow> Inr (np_scale (np_add (np_div (Fin end_balance) (Fin init_balance)) (- 1)) 100))"

text \<open>\<open>return_drawdown_ratio = -total_return / max_ddpercent\<close>.\<close>

definition return_drawdown_ratio :: "real \<Rightarrow> real list \<Rightarrow> error + np_float" where
  "return_drawdown_ratio init_balance bs =
     (case total_return init_balance bs of
        Inl e \<Rightarrow> Inl e
      | Inr tr \<Rightarrow> Inr (np_div (np_scale tr (- 1)) (max_ddpercent bs)))"

text \<open>
  The Sharpe ratio from the mean and the standard deviation of the daily log returns;
  \<open>if return_std:\<close> is the truth value of a float, false exactly at zero.
\<close>

definition sharpe_ratio :: "real \<Rightarrow> np_float \<Rightarrow> real \<Rightarrow> np_float" where
  "sharpe_ratio daily_return return_std annual_days =
     (if return_std \<noteq> Fin 0
      then np_scale (np_div (Fin (daily_return - 0.03 / sqrt annual_days)) return_std)
             (sqrt annual_days)
      else Fin 0)"

section \<open>backtest.py: construction\<close>

text \<open>
  An instance is its attribute dictionary. Configuration values are of an arbitrary type
  \<open>'v\<close>; \<open>TraderObj\<close> and \<open>DatasObj\<close> stand for the objects built by the constructors of
  \<open>BackTestTrader\<close> and \<open>BackTestKlines\<close> (classes outside the two source files), holding
  the arguments they were built from; the trader also holds what \<open>set_strategy\<close> and
  \<open>set_data\<close> gave it.
\<close>

datatype 'v pyobj =
    Val 'v
  | PyNone
  | LoggerObj
  | DatasObj "'v list"
  | TraderObj "'v list" "'v list" "'v list"

definition check_keys :: "string list" where
  "check_keys = [''mode'', ''market'', ''base_code'', ''codes'', ''frequencys'',
                 ''start_datetime'', ''end_datetime'',
                 ''init_balance'', ''fee_rate'', ''max_pos'',
                 ''cl_config'', ''is_stock'', ''is_futures'', ''strategy'']"

text \<open>
  The loop over \<open>check_keys\<close>: the first key the dictionary lacks, in the order of the
  list. \<open>ConfigException k\<close> is the \<open>Exception\<close> whose message names the key \<open>k\<close>.
\<close>

fun first_missing :: "string list \<Rightarrow> (string \<rightharpoonup> 'v) \<Rightarrow> string option" where
  "first_missing [] config = None"
| "first_missing (k # ks) config =
     (if config k = None then Some k else first_missing ks config)"

text \<open>The assignments \<open>self.k = config['k']\<close>, each a lookup that raises on a missing key.\<close>

fun copy_keys ::
    "string list \<Rightarrow> (string \<rightharpoonup> 'v) \<Rightarrow> (string \<rightharpoonup> 'v pyobj) \<Rightarrow> error + (string \<rightharpoonup> 'v pyobj)" where
  "copy_keys [] config self = Inr self"
| "copy_keys (k # ks) config self =
     (case py_getitem config k of
        Inl e \<Rightarrow> Inl e
      | Inr v \<Rightarrow> copy_keys ks config (self(k \<mapsto> Val v)))"

definition attr_vals :: "(string \<rightharpoonup> 'v pyobj) \<Rightarrow> string list \<Rightarrow> 'v list" where
  "attr_vals self ks = concat (map (\<lambda>k. case self k of Some (Val v) \<Rightarrow> [v] | _ \<Rightarrow> []) ks)"

definition BackTest_init :: "(string \<rightharpoonup> 'v) option \<Rightarrow> error + (string \<rightharpoonup> 'v pyobj)" where
  "BackTest_init config =
     (let self = [''log'' \<mapsto> LoggerObj] in
      case config of
        None \<Rightarrow> Inr self
      | Some c \<Rightarrow>
          (case first_missing check_keys c of
             Some k \<Rightarrow> Inl (ConfigException k)
           | None \<Rightarrow>
               (case copy_keys check_keys c self of
                  Inl e \<Rightarrow> Inl e
                | Inr self1 \<Rightarrow>
                    (let self2 = self1(''save_file'' \<mapsto> (case c ''save_file'' of None \<Rightarrow> PyNone | Some v \<Rightarrow> Val v));
                         datas = attr_vals self2 [''market'', ''start_datetime'', ''end_datetime'',
                                                  ''frequencys'', ''cl_config''];
                         trader = TraderObj
                                    (attr_vals self2 [''mode'', ''is_stock'', ''is_futures'',
                                                      ''init_balance'', ''fee_rate'', ''max_pos''])
                                    (attr_vals self2 [''strategy''])
                                    datas
                     in Inr (self2(''trader'' \<mapsto> trader, ''datas'' \<mapsto> DatasObj datas,
                                    ''next_frequency'' \<mapsto> PyNone))))))"

section \<open>backtest.py: the run loop\<close>

text \<open>
  Modelled from the spec: the classes \<open>BackTestTrader\<close> and \<open>BackTestKlines\<close> are not among
  the source files; \<open>run\<close> calls them through \<open>self.trader\<close> and \<open>self.datas\<close>. They are the
  parameters \<open>collaborators\<close> of the model. The market data is the finite list of ticks that
  \<open>datas.init\<close> prepares for the replay range: \<open>datas.next()\<close> serves them one by one and
  returns \<open>False\<close> when none is left (the runner "asks the provider to advance and stops when
  it reports exhaustion"). \<open>trader.run(code)\<close> may raise after having changed the trader: its
  result is the exception, if any, and the trader as the call left it. \<open>trader.end()\<close>
  receives the last tick served. Exceptions of the calls outside the \<open>try\<close> block and the
  wall-clock timing of \<open>run\<close> are not modelled; every \<open>error\<close> is an \<open>Exception\<close>.
\<close>

datatype log_entry = LogRunError string | LogTraceback error | LogFinished

record ('t, 'k) collaborators =
  datas_init :: "string \<Rightarrow> string \<Rightarrow> 'k list"
  update_position_record :: "'k \<Rightarrow> 't \<Rightarrow> 't"
  trader_run :: "string \<Rightarrow> 'k \<Rightarrow> 't \<Rightarrow> error option \<times> 't"
  trader_end :: "'k option \<Rightarrow> 't \<Rightarrow> 't"

text \<open>
  The attributes of a \<open>BackTest\<close> that \<open>run\<close> reads or writes; \<open>log_lines\<close> is what was
  passed to \<open>self.log.info\<close>: \<open>LogRunError code\<close> the line naming the failing instrument,
  \<open>LogTraceback e\<close> the output of \<open>traceback.format_exc()\<close>, \<open>LogFinished\<close> the closing line.
\<close>

record 't BackTest =
  frequencys :: "string list"
  base_code :: string
  codes :: "string list"
  next_frequency :: "string option"
  trader :: 't
  log_lines :: "log_entry list"

text \<open>
  The loop \<open>for code in self.codes\<close> of one tick, with its \<open>try\<close>/\<open>except Exception\<close>.
\<close>

fun run_codes ::
    "('t, 'k) collaborators \<Rightarrow> 'k \<Rightarrow> string list \<Rightarrow> 't \<times> log_entry list \<Rightarrow> 't \<times> log_entry list" where
  "run_codes ops k [] (t, l) = (t, l)"
| "run_codes ops k (c # cs) (t, l) =
     (case trader_run ops c k t of
        (None, t') \<Rightarrow> run_codes ops k cs (t', l)
      | (Some e, t') \<Rightarrow> run_codes ops k cs (t', l @ [LogRunError c, LogTraceback e]))"

text \<open>
  The loop \<open>while True\<close> over the remaining ticks: the empty list is \<open>next()\<close> returning
  \<open>False\<close>.
\<close>

fun run_ticks ::
    "('t, 'k) collaborators \<Rightarrow> string list \<Rightarrow> 'k list \<Rightarrow> 't \<times> log_entry list \<Rightarrow> 't \<times> log_entry list" where
  "run_ticks ops cs [] (t, l) = (t, l)"
| "run_ticks ops cs (k # ks) (t, l) =
     run_ticks ops cs ks (run_codes ops k cs (update_position_record ops k t, l))"

text \<open>
  \<open>BackTest.run\<close>: \<open>self.frequencys[-1]\<close> raises \<open>IndexError\<close> on an empty list.
\<close>

definition run ::
    "('t, 'k) collaborators \<Rightarrow> string option \<Rightarrow> 't BackTest \<Rightarrow> error + ('t BackTest \<times> bool)" where
  "run ops nf_arg self =
     (case (case nf_arg of None \<Rightarrow> py_last (frequencys self) | Some f \<Rightarrow> Inr f) of
        Inl e \<Rightarrow> Inl e
      | Inr nf \<Rightarrow>
          (let ticks = datas_init ops (base_code self) nf;
               (t, l) = run_ticks ops (codes self) ticks (trader self, log_lines self);
               t' = trader_end ops (if ticks = [] then None else Some (last ticks)) t
           in Inr (self\<lparr>next_frequency := Some nf, trader := t', log_lines := l @ [LogFinished]\<rparr>,
                   True)))"

text \<open>
  For the statements below: the failing invocations of one tick with their exceptions, in
  order, and the trader after one whole tick.
\<close>

fun failures ::
    "('t, 'k) collaborators \<Rightarrow> 'k \<Rightarrow> string list \<Rightarrow> 't \<Rightarrow> (string \<times> error) list" where
  "failures ops k [] t = []"
| "failures ops k (c # cs) t =
     (case trader_run ops c k t of
        (None, t') \<Rightarrow> failures ops k cs t'
      | (Some e, t') \<Rightarrow> (c, e) # failures ops k cs t')"

definition tick_step :: "('t, 'k) collaborators \<Rightarrow> string list \<Rightarrow> 't \<Rightarrow> 'k \<Rightarrow> 't" where
  "tick_step ops cs t k =
     foldl (\<lambda>t c. snd (trader_run ops c k t)) (update_position_record ops k t) cs"

text \<open>
  Modelled from the spec: what the specification says of the absent trader. Only the
  mark-to-market step (\<open>update_position_record\<close>) records into the balance history, so a
  strategy invocation leaves the history as it is; and \<open>end\<close> (forceCloseAll) leaves no live
  position. \<open>bh\<close> and \<open>live\<close> read the balance history and the live positions off a trader.
\<close>

definition keeps_balance_history :: "('t, 'k) collaborators \<Rightarrow> ('t \<Rightarrow> 'h) \<Rightarrow> bool" where
  "keeps_balance_history ops bh = (\<forall>c k t. bh (snd (trader_run ops c k t)) = bh t)"

definition end_closes_all :: "('t, 'k) collaborators \<Rightarrow> ('t \<Rightarrow> 'p list) \<Rightarrow> bool" where
  "end_closes_all ops live = (\<forall>k t. live (trader_end ops k t) = [])"

section \<open>Sample data\<close>

text \<open>
  A trader whose state is the list of open positions and the balance history, and whose
  strategy fails on the instrument \<open>bad\<close>; a fractal with three supporting bars, pattern
  data whose latest bar follows it (\<open>sample_cd\<close>) and pattern data whose latest bar is the last
  raw bar of the fractal (\<open>same_bar_cd\<close>); a configuration with every required key.
\<close>

definition sample_ops :: "(string list \<times> (nat \<times> nat) list, nat) collaborators" where
  "sample_ops =
     \<lparr>datas_init = (\<lambda>b f. [1, 2]),
      update_position_record = (\<lambda>k (ps, h). (ps, h @ [(k, length ps)])),
      trader_run = (\<lambda>c k (ps, h).
         if c = ''bad'' then (Some (StrategyException c), (ps, h)) else (None, (c # ps, h))),
      trader_end = (\<lambda>k (ps, h). ([], h))\<rparr>"

definition sample_backtest :: "(string list \<times> (nat \<times> nat) list) BackTest" where
  "sample_backtest =
     \<lparr>frequencys = [''d'', ''30m''], base_code = ''a'', codes = [''a'', ''bad'', ''b''],
      next_frequency = None, trader = ([], []), log_lines = []\<rparr>"

definition sample_ding :: BI where
  "sample_ding =
     \<lparr>bi_type = ''up'', bi_high = 13, bi_low = 8, bi_done = True,
      bi_end = \<lparr>fx_type = ''ding'', fx_done = True,
                fx_klines = [\<lparr>clk_index = 3, clk_klines = [\<lparr>k_index = 7, k_o = 11, k_c = 12\<rparr>]\<rparr>,
                             \<lparr>clk_index = 4, clk_klines = [\<lparr>k_index = 8, k_o = 12, k_c = 13\<rparr>]\<rparr>,
                             \<lparr>clk_index = 5, clk_klines = [\<lparr>k_index = 9, k_o = 13, k_c = 12\<rparr>]\<rparr>]\<rparr>\<rparr>"

definition sample_cd :: ICL where
  "sample_cd =
     \<lparr>get_klines = [\<lparr>k_index = 9, k_o = 13, k_c = 12\<rparr>, \<lparr>k_index = 10, k_o = 12, k_c = 10\<rparr>],
      get_config = [''fx_qj'' \<mapsto> ''fx_qj_k'']\<rparr>"

definition same_bar_cd :: ICL where
  "same_bar_cd =
     \<lparr>get_klines = [\<lparr>k_index = 8, k_o = 12, k_c = 13\<rparr>, \<lparr>k_index = 9, k_o = 13, k_c = 12\<rparr>],
      get_config = [''fx_qj'' \<mapsto> ''fx_qj_k'']\<rparr>"

definition sample_config :: "string \<rightharpoonup> string" where
  "sample_config = (\<lambda>k. if k \<in> set check_keys then Some k else None)"

section \<open>Lemmas on the divergence angle\<close>








lemma len_npf: "length (new_points_from k sm) = length sm"
  by (induction sm arbitrary: k) (auto simp: is_not_None_def)

lemma nth_npf: "i < length sm \<Longrightarrow> new_points_from k sm ! i = (k + int i, sm ! i)"
proof (induction sm arbitrary: k i)
  case Nil then show ?case by simp
next
  case (Cons x sm)
  then show ?case by (cases i) (auto simp: is_not_None_def)
qed


lemma fxs_loop_filter:
  "fxs_loop pos nps i =
     map ((!) nps)
       (filter (\<lambda>j. (pos = ''up'' \<and> np_le (snd (nps ! (j - 1))) (snd (nps ! j))
                       \<and> (j + 1 < length nps \<longrightarrow> np_ge (snd (nps ! j)) (snd (nps ! (j + 1)))))
                   \<or> (pos = ''down'' \<and> np_ge (snd (nps ! (j - 1))) (snd (nps ! j))
                       \<and> (j + 1 < length nps \<longrightarrow> np_le (snd (nps ! j)) (snd (nps ! (j + 1))))))
          [i..<length nps])"
proof (induction pos nps i rule: fxs_loop.induct)
  case (1 position nps i)
  show ?case
  proof (cases "i < length nps")
    case False
    then show ?thesis by (simp add: fxs_loop.simps [of position nps i])
  next
    case True
    have upt: "[i..<length nps] = i # [i + 1..<length nps]"
      using True by (simp add: upt_conv_Cons)
    show ?thesis
      using True "1.IH"
      by (subst fxs_loop.simps) (simp add: upt Let_def)
  qed
qed
















lemma np_le_NaN: "np_le x NaN = False"
  by (cases x) simp_all

lemma find_fxs_filter:
  "find_fxs position (new_points sm) =
     map (\<lambda>j. (int j, sm ! j)) (filter (extremum_in position sm) [1..<length sm])"
proof -
  let ?nps = "new_points sm"
  let ?C = "\<lambda>j. (position = ''up'' \<and> np_le (snd (?nps ! (j - 1))) (snd (?nps ! j))
                       \<and> (j + 1 < length ?nps \<longrightarrow> np_ge (snd (?nps ! j)) (snd (?nps ! (j + 1)))))
                   \<or> (position = ''down'' \<and> np_ge (snd (?nps ! (j - 1))) (snd (?nps ! j))
                       \<and> (j + 1 < length ?nps \<longrightarrow> np_le (snd (?nps ! j)) (snd (?nps ! (j + 1)))))"
  have len: "length ?nps = length sm"
    by (simp add: new_points_def len_npf)
  have nth: "?nps ! j = (int j, sm ! j)" if "j < length sm" for j
    using that by (simp add: new_points_def nth_npf)
  have C: "?C j = extremum_in position sm j" if "j \<in> set [1..<length sm]" for j
  proof -
    have "j < length sm" "j - 1 < length sm" using that by auto
    then show ?thesis by (simp add: nth len extremum_in_def)
  qed
  have "find_fxs position ?nps = map ((!) ?nps) (filter ?C [1..<length sm])"
    by (simp add: find_fxs_def fxs_loop_filter len)
  also have "filter ?C [1..<length sm] = filter (extremum_in position sm) [1..<length sm]"
    by (rule filter_cong [OF refl]) (use C in blast)
  also have "map ((!) ?nps) (filter (extremum_in position sm) [1..<length sm])
           = map (\<lambda>j. (int j, sm ! j)) (filter (extremum_in position sm) [1..<length sm])"
    by (rule map_cong [OF refl]) (auto simp: nth)
  finally show ?thesis .
qed

lemma last_point_mem:
  assumes n2: "2 \<le> length sm"
  shows "((int (length sm - 1), sm ! (length sm - 1)) \<in> set (find_fxs position (new_points sm)))
         = extremum_in position sm (length sm - 1)"
proof
  assume "(int (length sm - 1), sm ! (length sm - 1)) \<in> set (find_fxs position (new_points sm))"
  then obtain j where
    j: "j \<in> set (filter (extremum_in position sm) [1..<length sm])"
    and eq: "(int (length sm - 1), sm ! (length sm - 1)) = (int j, sm ! j)"
    unfolding find_fxs_filter set_map by (rule imageE)
  from eq have "int (length sm - 1) = int j" by (simp only: prod.inject)
  then have "j = length sm - 1" by (simp only: of_nat_eq_iff)
  with j show "extremum_in position sm (length sm - 1)" by simp
next
  assume e: "extremum_in position sm (length sm - 1)"
  have "1 \<le> length sm - 1" "length sm - 1 < length sm" using n2 by linarith+
  then have "length sm - 1 \<in> set (filter (extremum_in position sm) [1..<length sm])"
    using e by simp
  then show "(int (length sm - 1), sm ! (length sm - 1)) \<in> set (find_fxs position (new_points sm))"
    unfolding find_fxs_filter set_map by (rule imageI)
qed

lemma last_point_up:
  assumes n2: "2 \<le> length sm"
  shows "extremum_in ''up'' sm (length sm - 1)
        = np_le (sm ! (length sm - 2)) (sm ! (length sm - 1))"
proof -
  have "\<not> length sm - 1 + 1 < length sm" using n2 by linarith
  moreover have "length sm - 1 - 1 = length sm - 2" by simp
  ultimately show ?thesis unfolding extremum_in_def by auto
qed

lemma last_done_bi_snoc:
  "last_done_bi (bis @ [x]) = (if bi_done x then Some x else last_done_bi bis)"
  by (simp add: last_done_bi_def)

lemma last_done_bi_Some:
  "last_done_bi bis = Some b \<Longrightarrow>
   \<exists>pre post. bis = pre @ b # post \<and> bi_done b \<and> (\<forall>x \<in> set post. \<not> bi_done x)"
proof (induction bis rule: rev_induct)
  case Nil
  then show ?case by (simp add: last_done_bi_def)
next
  case (snoc x xs)
  show ?case
  proof (cases "bi_done x")
    case True
    with snoc.prems have "b = x" by (simp add: last_done_bi_snoc)
    with True have "xs @ [x] = xs @ b # [] \<and> bi_done b \<and> (\<forall>y \<in> set []. \<not> bi_done y)"
      by simp
    then show ?thesis by blast
  next
    case False
    with snoc.prems have "last_done_bi xs = Some b" by (simp add: last_done_bi_snoc)
    from snoc.IH [OF this] obtain pre post where
      p: "xs = pre @ b # post" "bi_done b" "\<forall>y \<in> set post. \<not> bi_done y"
      by blast
    have "xs @ [x] = pre @ b # (post @ [x]) \<and> bi_done b
          \<and> (\<forall>y \<in> set (post @ [x]). \<not> bi_done y)"
      using p False by simp
    then show ?thesis by blast
  qed
qed

section \<open>Claims\<close>

subsection \<open>C1: the trailing stop never loosens\<close>

text \<open>Every signal type of the report table is of one side only.\<close>

lemma mmds_keys_one_sided:
  "\<forall>m \<in> set mmds_keys. str_in ''buy'' m \<noteq> str_in ''sell'' m"
  by (simp add: mmds_keys_def)

text \<open>
  Claim C1: for every position of one of the signal types whose stop is set, and every
  stroke list, after one call of \<open>dynamic_change_loss_by_bi\<close> the stop is still set; it is
  not below the previous stop for a long position (\<open>buy\<close> in the signal type) and not above
  it for a short position (\<open>sell\<close> in the signal type). It is raised only to the low of the
  last completed stroke of the list, and only when that stroke is upward; it is lowered
  only to the high of the last completed stroke, and only when that stroke is downward.
  The statement is about the position object after the call, also when the call raises.
\<close>

theorem C1_stop_never_loosens:
  assumes "loss_price pos = Some l"
    and "mmd pos \<in> set mmds_keys"
  shows "\<exists>l'. loss_price (pos_after pos (dynamic_change_loss_by_bi pos bis)) = Some l'
     \<and> (str_in ''buy'' (mmd pos) \<longrightarrow> l \<le> l')
     \<and> (str_in ''sell'' (mmd pos) \<longrightarrow> l' \<le> l)
     \<and> (l < l' \<longrightarrow>
           (\<exists>pre b post. bis = pre @ b # post \<and> bi_done b \<and> (\<forall>x \<in> set post. \<not> bi_done x)
               \<and> bi_type b = ''up'' \<and> l' = bi_low b))
     \<and> (l' < l \<longrightarrow>
           (\<exists>pre b post. bis = pre @ b # post \<and> bi_done b \<and> (\<forall>x \<in> set post. \<not> bi_done x)
               \<and> bi_type b = ''down'' \<and> l' = bi_high b))"
proof -
  have side: "str_in ''buy'' (mmd pos) \<noteq> str_in ''sell'' (mmd pos)"
    using assms(2) mmds_keys_one_sided by blast
  show ?thesis
  proof (cases "last_done_bi bis")
    case None
    then show ?thesis
      using assms(1) by (simp add: dynamic_change_loss_by_bi_def pos_after_def)
  next
    case (Some b)
    from last_done_bi_Some [OF Some] obtain pre post where
      d: "bis = pre @ b # post" "bi_done b" "\<forall>x \<in> set post. \<not> bi_done x"
      by blast
    have up_ex: "\<exists>pre b' post. bis = pre @ b' # post \<and> bi_done b'
                  \<and> (\<forall>x \<in> set post. \<not> bi_done x) \<and> bi_type b' = ''up'' \<and> v = bi_low b'"
      if "bi_type b = ''up''" "v = bi_low b" for v
      using d that by blast
    have down_ex: "\<exists>pre b' post. bis = pre @ b' # post \<and> bi_done b'
                  \<and> (\<forall>x \<in> set post. \<not> bi_done x) \<and> bi_type b' = ''down'' \<and> v = bi_high b'"
      if "bi_type b = ''down''" "v = bi_high b" for v
      using d that by blast
    consider (up) "str_in ''buy'' (mmd pos)" "bi_type b = ''up''"
      | (down) "\<not> (str_in ''buy'' (mmd pos) \<and> bi_type b = ''up'')"
               "str_in ''sell'' (mmd pos)" "bi_type b = ''down''"
      | (none) "\<not> (str_in ''buy'' (mmd pos) \<and> bi_type b = ''up'')"
               "\<not> (str_in ''sell'' (mmd pos) \<and> bi_type b = ''down'')"
      by blast
    then show ?thesis
    proof cases
      case up
      let ?l' = "max l (bi_low b)"
      have r: "loss_price (pos_after pos (dynamic_change_loss_by_bi pos bis)) = Some ?l'"
        using up assms(1) Some by (simp add: dynamic_change_loss_by_bi_def pos_after_def)
      have ns: "\<not> str_in ''sell'' (mmd pos)" using side up(1) by simp
      show ?thesis
      proof (intro exI [of _ ?l'] conjI impI)
        show "loss_price (pos_after pos (dynamic_change_loss_by_bi pos bis)) = Some ?l'"
          by (rule r)
        show "l \<le> ?l'" by simp
        show "?l' \<le> l" if "str_in ''sell'' (mmd pos)" using that ns by simp
        show "\<exists>pre b' post. bis = pre @ b' # post \<and> bi_done b'
                  \<and> (\<forall>x \<in> set post. \<not> bi_done x) \<and> bi_type b' = ''up'' \<and> ?l' = bi_low b'"
          if "l < ?l'"
        proof -
          from that have "?l' = bi_low b" by (simp add: max_def split: if_splits)
          with up(2) show ?thesis by (rule up_ex)
        qed
        show "\<exists>pre b' post. bis = pre @ b' # post \<and> bi_done b'
                  \<and> (\<forall>x \<in> set post. \<not> bi_done x) \<and> bi_type b' = ''down'' \<and> ?l' = bi_high b'"
          if "?l' < l"
          using that by simp
      qed
    next
      case down
      let ?l' = "min l (bi_high b)"
      have r: "loss_price (pos_after pos (dynamic_change_loss_by_bi pos bis)) = Some ?l'"
        using down assms(1) Some by (simp add: dynamic_change_loss_by_bi_def pos_after_def)
      have nb: "\<not> str_in ''buy'' (mmd pos)" using side down(2) by simp
      show ?thesis
      proof (intro exI [of _ ?l'] conjI impI)
        show "loss_price (pos_after pos (dynamic_change_loss_by_bi pos bis)) = Some ?l'"
          by (rule r)
        show "l \<le> ?l'" if "str_in ''buy'' (mmd pos)" using that nb by simp
        show "?l' \<le> l" by simp
        show "\<exists>pre b' post. bis = pre @ b' # post \<and> bi_done b'
                  \<and> (\<forall>x \<in> set post. \<not> bi_done x) \<and> bi_type b' = ''up'' \<and> ?l' = bi_low b'"
          if "l < ?l'"
          using that by simp
        show "\<exists>pre b' post. bis = pre @ b' # post \<and> bi_done b'
                  \<and> (\<forall>x \<in> set post. \<not> bi_done x) \<and> bi_type b' = ''down'' \<and> ?l' = bi_high b'"
          if "?l' < l"
        proof -
          from that have "?l' = bi_high b" by (simp add: min_def split: if_splits)
          with down(3) show ?thesis by (rule down_ex)
        qed
      qed
    next
      case none
      then have "loss_price (pos_after pos (dynamic_change_loss_by_bi pos bis)) = Some l"
        using assms(1) Some by (auto simp: dynamic_change_loss_by_bi_def pos_after_def)
      then show ?thesis by simp
    qed
  qed
qed

text \<open>
  The scenario of the specification: a long position with its stop at 95, a completed upward
  stroke with low 97 followed by a stroke that is not completed; the stop becomes 97. A
  completed downward stroke leaves the stop of the long position where it is.
\<close>

theorem C1_stop_never_loosens_witness:
  "loss_price (sample_pos ''1buy'' 100 (Some 95)) = Some 95
   \<and> mmd (sample_pos ''1buy'' 100 (Some 95)) \<in> set mmds_keys
   \<and> loss_price (pos_after (sample_pos ''1buy'' 100 (Some 95))
        (dynamic_change_loss_by_bi (sample_pos ''1buy'' 100 (Some 95))
           [sample_bi ''up'' 105 97 True, sample_bi ''down'' 105 99 False])) = Some 97
   \<and> loss_price (pos_after (sample_pos ''1buy'' 100 (Some 97))
        (dynamic_change_loss_by_bi (sample_pos ''1buy'' 100 (Some 97))
           [sample_bi ''up'' 105 97 True, sample_bi ''down'' 105 96 True])) = Some 97"
  using C1_stop_never_loosens [of "sample_pos ''1buy'' 100 (Some 95)" 95
      "[sample_bi ''up'' 105 97 True, sample_bi ''down'' 105 99 False]"]
    C1_stop_never_loosens [of "sample_pos ''1buy'' 100 (Some 97)" 97
      "[sample_bi ''up'' 105 97 True, sample_bi ''down'' 105 96 True]"]
  by (simp add: dynamic_change_loss_by_bi_def pos_after_def sample_pos_def sample_bi_def
      last_done_bi_def mmds_keys_def)

subsection \<open>C2: no completed stroke\<close>

text \<open>
  Claim C2 says the call is a no-op when the stroke list has no completed stroke. With the
  stop set and a signal type containing \<open>buy\<close> or \<open>sell\<close>, \<open>last_done_bi\<close> returns \<open>None\<close> and
  the attribute access \<open>last_done_bi.type\<close> raises \<open>AttributeError\<close>: on the empty list, and on
  a list whose only stroke is not completed.
\<close>

theorem C2_no_completed_stroke_raises:
  "last_done_bi [] = None
   \<and> last_done_bi [sample_bi ''up'' 105 97 False] = None
   \<and> dynamic_change_loss_by_bi (sample_pos ''1buy'' 100 (Some 95)) [] = Inl AttributeError
   \<and> dynamic_change_loss_by_bi (sample_pos ''1sell'' 100 (Some 105))
        [sample_bi ''up'' 105 97 False] = Inl AttributeError"
  by (simp add: dynamic_change_loss_by_bi_def sample_pos_def sample_bi_def last_done_bi_def)

subsection \<open>C5: the divergence angle\<close>



subsection \<open>C6: which points are extrema\<close>

text \<open>
  Claim C6 as stated fails on the series 6, 4, -2, 8 with \<open>up\<close>: the smoothed values are
  NaN, 5, 1, 3, and the entry with the NaN is kept in \<open>new_points\<close>. Of the defined points
  the first, \<open>(1, 5)\<close>, is not below its single neighbour and would be a peak as the claim
  words it; the loop starts at the second entry and never collects it.
\<close>

theorem C6_first_boundary_counterexample:
  "new_points (talib_MA2 [6, 4, - 2, 8]) = [(0, NaN), (1, Fin 5), (2, Fin 1), (3, Fin 3)]
   \<and> spec_retained (talib_MA2 [6, 4, - 2, 8]) = [(1, 5), (2, 1), (3, 3)]
   \<and> spec_extrema [6, 4, - 2, 8] ''up'' = [(1, 5), (3, 3)]
   \<and> extrema [6, 4, - 2, 8] ''up'' = [(3, Fin 3)]
   \<and> points_jiaodu [6, 4, - 2, 8] ''up'' = Fin 0"
  by (simp add: extrema_def find_fxs_def new_points_def is_not_None_def fxs_loop.simps np_ge_def
      spec_retained_def spec_extrema_def spec_is_extremum_def points_jiaodu_def)

text \<open>
  Claim C6, amended: whatever the values of the smoothed series \<open>sm\<close>, the points collected
  from its (original-index, value) pairs are, in index order, the entries from index 1 on
  that pass \<open>extremum_in\<close>: a point is compared with its left neighbour and, where there is
  one, with its right neighbour. The first entry is never collected; when it is NaN, as the
  first entry of a moving average of window 2 is, the first defined point (original index
  1) is never collected either; the last point counts as a peak exactly when it is not
  below its left neighbour.
\<close>

theorem C6_extrema_need_left_neighbour:
  "find_fxs position (new_points sm) =
     map (\<lambda>j. (int j, sm ! j)) (filter (extremum_in position sm) [1..<length sm])
   \<and> (\<forall>v. (0, v) \<notin> set (find_fxs position (new_points sm)))
   \<and> (sm \<noteq> [] \<and> sm ! 0 = NaN \<longrightarrow> (\<forall>v. (1, v) \<notin> set (find_fxs position (new_points sm))))
   \<and> (2 \<le> length sm \<longrightarrow>
        ((int (length sm - 1), sm ! (length sm - 1)) \<in> set (find_fxs ''up'' (new_points sm))
         \<longleftrightarrow> np_le (sm ! (length sm - 2)) (sm ! (length sm - 1))))"
proof (intro conjI allI impI)
  show "find_fxs position (new_points sm) =
     map (\<lambda>j. (int j, sm ! j)) (filter (extremum_in position sm) [1..<length sm])"
    by (rule find_fxs_filter)
  show "(0, v) \<notin> set (find_fxs position (new_points sm))" for v
    by (auto simp: find_fxs_filter)
  show "(1, v) \<notin> set (find_fxs position (new_points sm))" if "sm \<noteq> [] \<and> sm ! 0 = NaN" for v
    using that by (auto simp: find_fxs_filter extremum_in_def np_ge_def np_le_NaN)
  assume n2: "2 \<le> length sm"
  show "((int (length sm - 1), sm ! (length sm - 1)) \<in> set (find_fxs ''up'' (new_points sm))
         \<longleftrightarrow> np_le (sm ! (length sm - 2)) (sm ! (length sm - 1)))"
    by (simp only: last_point_mem [OF n2] last_point_up [OF n2])
qed

text \<open>
  On the smoothed series NaN, 5, 1, 3 (that of 6, 4, -2, 8) the only peak is the last
  point.
\<close>

theorem C6_extrema_need_left_neighbour_witness:
  "[NaN, Fin 5, Fin 1, Fin 3] \<noteq> [] \<and> [NaN, Fin 5, Fin 1, Fin 3] ! 0 = NaN
   \<and> find_fxs ''up'' (new_points [NaN, Fin 5, Fin 1, Fin 3]) = [(3, Fin 3)]
   \<and> (1, Fin 5) \<notin> set (find_fxs ''up'' (new_points [NaN, Fin 5, Fin 1, Fin 3]))"
  using C6_extrema_need_left_neighbour [of "''up''" "[NaN, Fin 5, Fin 1, Fin 3]"]
  by (simp add: extremum_in_def np_ge_def upt_conv_Cons)

subsection \<open>C3: the ratios of the report\<close>

text \<open>
  The ratios of the per-signal-type table never raise and are 0 on a zero divisor, and the
  Sharpe ratio is 0 when the standard deviation is 0.
\<close>

lemma table_ratios_guarded:
  "(\<exists>v. shenglv win_num loss_num = Inr v)
   \<and> (\<exists>v. back_rate win_balance loss_balance = Inr v)
   \<and> (\<exists>v. win_mean_balance win_num win_balance = Inr v)
   \<and> (\<exists>v. loss_mean_balance loss_num loss_balance = Inr v)
   \<and> (\<exists>v. ykb win_mean loss_mean = Inr v)
   \<and> shenglv 0 0 = Inr 0
   \<and> back_rate 0 loss_balance = Inr 0
   \<and> win_mean_balance 0 win_balance = Inr 0
   \<and> loss_mean_balance 0 loss_balance = Inr 0
   \<and> ykb win_mean 0 = Inr 0"
  by (simp add: shenglv_def back_rate_def win_mean_balance_def loss_mean_balance_def ykb_def
      py_div_def)

lemma sharpe_ratio_guarded: "sharpe_ratio daily_return (Fin 0) annual_days = Fin 0"
  by (simp add: sharpe_ratio_def)

text \<open>
  Claim C3 says every ratio of \<open>result\<close>, the return/drawdown ratio included, is 0 on a zero
  divisor. \<open>return_drawdown_ratio\<close> divides by \<open>max_ddpercent\<close> without a test: a balance
  history that never falls below its running maximum has \<open>max_ddpercent = 0\<close>, and the ratio
  is minus infinity for the balances 100, 110 (total return 10) and NaN for the single
  balance 100 (total return 0), \<open>init_balance\<close> being 100.
\<close>

theorem C3_return_drawdown_ratio_unguarded:
  "max_ddpercent [100, 110] = Fin 0
   \<and> total_return 100 [100, 110] = Inr (Fin 10)
   \<and> return_drawdown_ratio 100 [100, 110] = Inr NInf
   \<and> max_ddpercent [100] = Fin 0
   \<and> return_drawdown_ratio 100 [100] = Inr NaN"
  by (simp add: return_drawdown_ratio_def total_return_def max_ddpercent_def ddpercent_def
      highlevel_def py_last_def)

subsection \<open>C4: strong pause\<close>

lemma py_last_nonempty: "xs \<noteq> [] \<Longrightarrow> py_last xs = Inr (last xs)"
  by (cases xs) (simp_all add: py_last_def)

text \<open>
  What \<open>bi_qiang_td\<close> computes: \<open>False\<close> for a fractal that is not done; and for pattern data
  with a latest bar, a fractal with supporting merged bars the last of which holds a raw
  bar, and a configuration that defines \<open>fx_qj\<close>, the conjunction of the tests of the code.
  The third test compares the index of the fractal's last merged bar with the index of the
  latest raw bar.
\<close>

lemma bi_qiang_td_not_done:
  "\<not> fx_done (bi_end bi) \<Longrightarrow> bi_qiang_td fx_low fx_high bi cd = Inr False"
  by (simp add: bi_qiang_td_def)

lemma bi_qiang_td_tests:
  assumes "get_klines cd \<noteq> []"
    and "fx_klines (bi_end bi) \<noteq> []"
    and "clk_klines (last (fx_klines (bi_end bi))) \<noteq> []"
    and "get_config cd ''fx_qj'' = Some q"
  shows "bi_qiang_td fx_low fx_high bi cd =
     Inr (fx_done (bi_end bi)
          \<and> \<not> (k_index (last (get_klines cd))
                  - k_index (last (clk_klines (last (fx_klines (bi_end bi))))) > 2)
          \<and> clk_index (last (fx_klines (bi_end bi))) \<noteq> k_index (last (get_klines cd))
          \<and> ((fx_type (bi_end bi) = ''ding''
                \<and> k_o (last (get_klines cd)) > k_c (last (get_klines cd))
                \<and> k_c (last (get_klines cd)) < fx_low (bi_end bi) q)
             \<or> (fx_type (bi_end bi) = ''di''
                \<and> k_o (last (get_klines cd)) < k_c (last (get_klines cd))
                \<and> k_c (last (get_klines cd)) > fx_high (bi_end bi) q)))"
proof -
  have l1: "py_last (get_klines cd) = Inr (last (get_klines cd))"
    using assms(1) by (rule py_last_nonempty)
  have l2: "py_last (fx_klines (bi_end bi)) = Inr (last (fx_klines (bi_end bi)))"
    using assms(2) by (rule py_last_nonempty)
  have l3: "py_last (clk_klines (last (fx_klines (bi_end bi))))
            = Inr (last (clk_klines (last (fx_klines (bi_end bi)))))"
    using assms(3) by (rule py_last_nonempty)
  have g: "py_getitem (get_config cd) ''fx_qj'' = Inr q"
    using assms(4) by (simp add: py_getitem_def)
  show ?thesis
    by (simp add: bi_qiang_td_def l1 l2 l3 g) argo
qed

text \<open>
  Claim C4 says \<open>bi_qiang_td\<close> returns \<open>True\<close> only if the latest bar is not the same bar as
  the fractal's last supporting bar. In \<open>same_bar_cd\<close> the latest bar is the raw bar with
  index 9 that closes the last merged bar of the peak fractal \<open>sample_ding\<close>: the distance
  test of the line before reads that raw bar (distance 0), but the same-bar test compares
  the merged bar's own index, 5, with 9, finds them different, and the function returns
  \<open>True\<close> on the bearish bar closing below the threshold. With \<open>sample_cd\<close>, whose latest bar
  is the next one (index 10), \<open>True\<close> is the answer the claim describes.
\<close>

theorem C4_same_bar_not_rejected:
  "last (get_klines same_bar_cd) = last (clk_klines (last (fx_klines (bi_end sample_ding))))
   \<and> k_index (last (get_klines same_bar_cd))
       = k_index (last (clk_klines (last (fx_klines (bi_end sample_ding)))))
   \<and> clk_index (last (fx_klines (bi_end sample_ding))) = 5
   \<and> bi_qiang_td (\<lambda>fx q. 13) (\<lambda>fx q. 14) sample_ding same_bar_cd = Inr True
   \<and> bi_qiang_td (\<lambda>fx q. 11) (\<lambda>fx q. 14) sample_ding sample_cd = Inr True"
  by (simp add: bi_qiang_td_def py_last_def py_getitem_def sample_ding_def same_bar_cd_def
      sample_cd_def)

subsection \<open>C7: give-back stop\<close>

text \<open>
  Claim C7 as stated fails for a position whose entry price is 0 (the default of the
  dataclass): with \<open>max_back_rate\<close> set the division by the entry price raises
  \<open>ZeroDivisionError\<close>, where the claim says \<open>None\<close> is returned.
\<close>

theorem C7_zero_entry_price_counterexample:
  "price (sample_pos ''1buy'' 0 None) = 0
   \<and> check_back_return exact_ops ''1buy'' (sample_pos ''1buy'' 0 None) 10 (Some 5)
       = Inl ZeroDivisionError
   \<and> check_back_return exact_ops ''1buy'' (sample_pos ''1buy'' 0 None) 10 (Some 5) \<noteq> Inr None"
  by (simp add: check_back_return_def py_truediv_def sample_pos_def)

text \<open>
  Claim C7, amended: \<open>check_back_return\<close> returns \<open>None\<close> when \<open>max_back_rate\<close> is unset. For a
  signal type and a position whose entry price is not 0 it returns the close operation if
  and only if \<open>max_back_rate\<close> is set, the profit rate is strictly positive and
  \<open>max_profit_rate\<close> minus the profit rate is at least \<open>max_back_rate\<close>, and \<open>None\<close> in every
  other case. The profit rate is \<open>(price - entry) / entry * 100\<close> for a long signal (\<open>buy\<close>) and
  \<open>(entry - price) / entry * 100\<close> for a short signal (\<open>sell\<close>), each operation being the
  float operation of the code, whatever its rounding.
\<close>

theorem C7_give_back_stop:
  "(max_back_rate = None \<longrightarrow> check_back_return fl m pos p max_back_rate = Inr None)
   \<and> (m \<in> set mmds_keys \<and> price pos \<noteq> 0 \<longrightarrow>
        (\<exists>profit_rate.
            (str_in ''buy'' m \<longrightarrow>
               profit_rate = f_mul fl (f_div fl (f_sub fl p (price pos)) (price pos)) 100)
          \<and> (str_in ''sell'' m \<longrightarrow>
               profit_rate = f_mul fl (f_div fl (f_sub fl (price pos) p) (price pos)) 100)
          \<and> (str_in ''buy'' m \<or> str_in ''sell'' m)
          \<and> check_back_return fl m pos p max_back_rate =
              (if \<exists>r. max_back_rate = Some r \<and> 0 < profit_rate
                     \<and> r \<le> f_sub fl (max_profit_rate pos) profit_rate
               then Inr (Some \<lparr>opt = ''sell'', op_mmd = m, op_loss_price = None,
                               op_info = None, op_msg = m @ '' '' @ msg_back_return\<rparr>)
               else Inr None)))"
proof (intro conjI impI)
  show "check_back_return fl m pos p max_back_rate = Inr None" if "max_back_rate = None"
    using that by (simp add: check_back_return_def)
next
  assume a: "m \<in> set mmds_keys \<and> price pos \<noteq> 0"
  then have side: "str_in ''buy'' m \<noteq> str_in ''sell'' m"
    using mmds_keys_one_sided by blast
  let ?long = "f_mul fl (f_div fl (f_sub fl p (price pos)) (price pos)) 100"
  let ?short = "f_mul fl (f_div fl (f_sub fl (price pos) p) (price pos)) 100"
  let ?pr = "if str_in ''sell'' m then ?short else ?long"
  have r: "check_back_return fl m pos p max_back_rate =
              (if \<exists>r. max_back_rate = Some r \<and> 0 < ?pr
                     \<and> r \<le> f_sub fl (max_profit_rate pos) ?pr
               then Inr (Some \<lparr>opt = ''sell'', op_mmd = m, op_loss_price = None,
                               op_info = None, op_msg = m @ '' '' @ msg_back_return\<rparr>)
               else Inr None)"
    using a by (cases max_back_rate) (simp_all add: check_back_return_def py_truediv_def Let_def)
  have b: "str_in ''buy'' m \<longrightarrow> ?pr = ?long" using side by simp
  have c: "str_in ''sell'' m \<longrightarrow> ?pr = ?short" by simp
  have d: "str_in ''buy'' m \<or> str_in ''sell'' m" using side by blast
  show "\<exists>profit_rate.
            (str_in ''buy'' m \<longrightarrow>
               profit_rate = f_mul fl (f_div fl (f_sub fl p (price pos)) (price pos)) 100)
          \<and> (str_in ''sell'' m \<longrightarrow>
               profit_rate = f_mul fl (f_div fl (f_sub fl (price pos) p) (price pos)) 100)
          \<and> (str_in ''buy'' m \<or> str_in ''sell'' m)
          \<and> check_back_return fl m pos p max_back_rate =
              (if \<exists>r. max_back_rate = Some r \<and> 0 < profit_rate
                     \<and> r \<le> f_sub fl (max_profit_rate pos) profit_rate
               then Inr (Some \<lparr>opt = ''sell'', op_mmd = m, op_loss_price = None,
                               op_info = None, op_msg = m @ '' '' @ msg_back_return\<rparr>)
               else Inr None)"
    using b c d r by (intro exI [of _ ?pr]) (simp only: simp_thms)
qed

text \<open>
  A long position entered at 100 with a recorded maximum of 10 percent and a give-back
  rate of 5, in arithmetic without rounding: at 104 it is closed, at 108 it is not, and
  without a rate nothing happens.
\<close>

theorem C7_give_back_stop_witness:
  "''1buy'' \<in> set mmds_keys
   \<and> price ((sample_pos ''1buy'' 100 None)\<lparr>max_profit_rate := 10\<rparr>) \<noteq> 0
   \<and> check_back_return exact_ops ''1buy''
         ((sample_pos ''1buy'' 100 None)\<lparr>max_profit_rate := 10\<rparr>) 104 (Some 5)
       = Inr (Some \<lparr>opt = ''sell'', op_mmd = ''1buy'', op_loss_price = None,
                     op_info = None, op_msg = ''1buy'' @ '' '' @ msg_back_return\<rparr>)
   \<and> check_back_return exact_ops ''1buy''
         ((sample_pos ''1buy'' 100 None)\<lparr>max_profit_rate := 10\<rparr>) 108 (Some 5)
       = Inr None
   \<and> check_back_return exact_ops ''1buy''
         ((sample_pos ''1buy'' 100 None)\<lparr>max_profit_rate := 10\<rparr>) 104 None
       = Inr None"
proof -
  let ?pos = "(sample_pos ''1buy'' 100 None)\<lparr>max_profit_rate := 10\<rparr>"
  have k: "''1buy'' \<in> set mmds_keys" by (simp add: mmds_keys_def)
  have pz: "price ?pos \<noteq> 0" by (simp add: sample_pos_def)
  have b: "str_in ''buy'' ''1buy''" "\<not> str_in ''sell'' ''1buy''" by simp_all
  from C7_give_back_stop [of "Some 5" exact_ops "''1buy''" ?pos 104] k pz b
  have c1: "check_back_return exact_ops ''1buy'' ?pos 104 (Some 5)
       = Inr (Some \<lparr>opt = ''sell'', op_mmd = ''1buy'', op_loss_price = None,
                     op_info = None, op_msg = ''1buy'' @ '' '' @ msg_back_return\<rparr>)"
    by (simp add: exact_ops_def sample_pos_def)
  from C7_give_back_stop [of "Some 5" exact_ops "''1buy''" ?pos 108] k pz b
  have c2: "check_back_return exact_ops ''1buy'' ?pos 108 (Some 5) = Inr None"
    by (simp add: exact_ops_def sample_pos_def)
  from C7_give_back_stop [of None exact_ops "''1buy''" ?pos 104]
  have c3: "check_back_return exact_ops ''1buy'' ?pos 104 None = Inr None"
    by simp
  show ?thesis using k pz c1 c2 c3 by simp
qed

subsection \<open>C8: a failing instrument does not abort the run\<close>

lemma run_codes_fst:
  "fst (run_codes ops k cs (t, l)) = foldl (\<lambda>t c. snd (trader_run ops c k t)) t cs"
  by (induction cs arbitrary: t l) (auto split: prod.splits option.splits)

lemma run_codes_snd:
  "snd (run_codes ops k cs (t, l))
     = l @ concat (map (\<lambda>(c, e). [LogRunError c, LogTraceback e]) (failures ops k cs t))"
  by (induction cs arbitrary: t l) (auto split: prod.splits option.splits)

lemma run_codes_bh:
  "keeps_balance_history ops bh \<Longrightarrow> bh (fst (run_codes ops k cs (t, l))) = bh t"
proof (induction cs arbitrary: t l)
  case Nil
  then show ?case by simp
next
  case (Cons c cs)
  obtain r t' where r: "trader_run ops c k t = (r, t')" by (cases "trader_run ops c k t")
  have "bh t' = bh t"
    using Cons.prems r unfolding keeps_balance_history_def by (metis snd_conv)
  then show ?case using Cons r by (cases r) simp_all
qed

lemma run_ticks_fst:
  "fst (run_ticks ops cs ks (t, l)) = foldl (tick_step ops cs) t ks"
proof (induction ks arbitrary: t l)
  case Nil
  then show ?case by simp
next
  case (Cons k ks)
  obtain t' l' where r: "run_codes ops k cs (update_position_record ops k t, l) = (t', l')"
    by (cases "run_codes ops k cs (update_position_record ops k t, l)")
  have "t' = tick_step ops cs t k"
    using run_codes_fst [of ops k cs "update_position_record ops k t" l] r
    by (simp add: tick_step_def)
  then show ?case using Cons r by simp
qed

text \<open>
  Claim C8: within a tick every instrument is passed to \<open>trader.run\<close>, in order, each on
  the trader as the previous call left it, whether or not calls raise; each failing call
  adds the line naming its instrument and its traceback to the log and nothing else; the
  balance history after the instruments of a tick is the one the mark-to-market step
  recorded. Given a frequency to replay at, \<open>run\<close> returns \<open>True\<close> after every tick of the
  stream was processed in this way, followed by one call of \<open>trader.end\<close>, which leaves no
  live position.
\<close>

theorem C8_failures_do_not_abort:
  assumes "keeps_balance_history ops bh"
    and "end_closes_all ops live"
    and "nf_arg \<noteq> None \<or> frequencys self \<noteq> []"
  shows "fst (run_codes ops k cs (t, l)) = foldl (\<lambda>t c. snd (trader_run ops c k t)) t cs
     \<and> snd (run_codes ops k cs (t, l))
         = l @ concat (map (\<lambda>(c, e). [LogRunError c, LogTraceback e]) (failures ops k cs t))
     \<and> bh (fst (run_codes ops k cs (t, l))) = bh t
     \<and> (\<exists>self' nf.
           run ops nf_arg self = Inr (self', True)
         \<and> nf = (case nf_arg of None \<Rightarrow> last (frequencys self) | Some f \<Rightarrow> f)
         \<and> trader self'
             = trader_end ops
                 (if datas_init ops (base_code self) nf = [] then None
                  else Some (last (datas_init ops (base_code self) nf)))
                 (foldl (tick_step ops (codes self)) (trader self)
                    (datas_init ops (base_code self) nf))
         \<and> live (trader self') = [])"
proof (intro conjI)
  show "fst (run_codes ops k cs (t, l)) = foldl (\<lambda>t c. snd (trader_run ops c k t)) t cs"
    by (rule run_codes_fst)
  show "snd (run_codes ops k cs (t, l))
         = l @ concat (map (\<lambda>(c, e). [LogRunError c, LogTraceback e]) (failures ops k cs t))"
    by (rule run_codes_snd)
  show "bh (fst (run_codes ops k cs (t, l))) = bh t"
    using assms(1) by (rule run_codes_bh)
  define nf where "nf = (case nf_arg of None \<Rightarrow> last (frequencys self) | Some f \<Rightarrow> f)"
  have sel: "(case nf_arg of None \<Rightarrow> py_last (frequencys self) | Some f \<Rightarrow> Inr f) = Inr nf"
    using assms(3) by (auto simp: nf_def py_last_def split: option.splits list.splits)
  let ?ticks = "datas_init ops (base_code self) nf"
  obtain t1 l1 where r: "run_ticks ops (codes self) ?ticks (trader self, log_lines self) = (t1, l1)"
    by (cases "run_ticks ops (codes self) ?ticks (trader self, log_lines self)")
  have t1: "t1 = foldl (tick_step ops (codes self)) (trader self) ?ticks"
    using run_ticks_fst [of ops "codes self" ?ticks "trader self" "log_lines self"] r by simp
  let ?self' = "self\<lparr>next_frequency := Some nf,
      trader := trader_end ops (if ?ticks = [] then None else Some (last ?ticks)) t1,
      log_lines := l1 @ [LogFinished]\<rparr>"
  have "run ops nf_arg self = Inr (?self', True)"
    by (simp add: run_def sel r Let_def)
  moreover have "live (trader ?self') = []"
    using assms(2) by (simp add: end_closes_all_def)
  ultimately show "\<exists>self' nf.
           run ops nf_arg self = Inr (self', True)
         \<and> nf = (case nf_arg of None \<Rightarrow> last (frequencys self) | Some f \<Rightarrow> f)
         \<and> trader self'
             = trader_end ops
                 (if datas_init ops (base_code self) nf = [] then None
                  else Some (last (datas_init ops (base_code self) nf)))
                 (foldl (tick_step ops (codes self)) (trader self)
                    (datas_init ops (base_code self) nf))
         \<and> live (trader self') = []"
    using t1 nf_def by (intro exI [of _ ?self'] exI [of _ nf]) simp
qed

text \<open>
  Two ticks over the instruments \<open>a\<close>, \<open>bad\<close>, \<open>b\<close>: \<open>bad\<close> fails in both ticks and is
  logged twice, \<open>b\<close> is still run after it, the balance history holds the two entries of
  the mark-to-market steps, and no position is left open.
\<close>

theorem C8_failures_do_not_abort_witness:
  "keeps_balance_history sample_ops snd
   \<and> end_closes_all sample_ops fst
   \<and> run_codes sample_ops 1 [''a'', ''bad'', ''b''] (([], [(1, 0)]), [])
       = (([''b'', ''a''], [(1, 0)]),
          [LogRunError ''bad'', LogTraceback (StrategyException ''bad'')])
   \<and> (\<exists>self'. run sample_ops None sample_backtest = Inr (self', True)
         \<and> trader self' = ([], [(1, 0), (2, 2)])
         \<and> log_lines self' = [LogRunError ''bad'', LogTraceback (StrategyException ''bad''),
                               LogRunError ''bad'', LogTraceback (StrategyException ''bad''),
                               LogFinished])"
proof -
  have kb: "keeps_balance_history sample_ops snd"
    by (simp add: keeps_balance_history_def sample_ops_def split: prod.splits)
  have ec: "end_closes_all sample_ops fst"
    by (simp add: end_closes_all_def sample_ops_def split: prod.splits)
  have fr: "None \<noteq> (None :: string option) \<or> frequencys sample_backtest \<noteq> []"
    by (simp add: sample_backtest_def)
  have codes: "run_codes sample_ops 1 [''a'', ''bad'', ''b''] (([], [(1, 0)]), [])
       = (([''b'', ''a''], [(1, 0)]),
          [LogRunError ''bad'', LogTraceback (StrategyException ''bad'')])"
    using C8_failures_do_not_abort [OF kb ec fr, of 1 "[''a'', ''bad'', ''b'']" "([], [(1, 0)])" "[]"]
    by (simp add: sample_ops_def prod_eq_iff)
  have "run sample_ops None sample_backtest
        = Inr (sample_backtest\<lparr>next_frequency := Some ''30m'', trader := ([], [(1, 0), (2, 2)]),
                 log_lines := [LogRunError ''bad'', LogTraceback (StrategyException ''bad''),
                               LogRunError ''bad'', LogTraceback (StrategyException ''bad''),
                               LogFinished]\<rparr>, True)"
    by (simp add: run_def sample_ops_def sample_backtest_def py_last_def)
  then show ?thesis using kb ec codes by simp
qed

subsection \<open>C9 and C10: construction\<close>

lemma first_missing_None: "(first_missing ks c = None) = (\<forall>k \<in> set ks. c k \<noteq> None)"
  by (induction ks) auto

lemma first_missing_Some: "first_missing ks c = Some k \<Longrightarrow> k \<in> set ks \<and> c k = None"
  by (induction ks) (auto split: if_splits)

lemma copy_keys_all:
  "\<forall>k \<in> set ks. c k \<noteq> None \<Longrightarrow>
   copy_keys ks c self = Inr (\<lambda>x. if x \<in> set ks then map_option Val (c x) else self x)"
proof (induction ks arbitrary: self)
  case Nil
  then show ?case by simp
next
  case (Cons k ks)
  then obtain v where v: "c k = Some v" by auto
  have "copy_keys (k # ks) c self = copy_keys ks c (self(k \<mapsto> Val v))"
    by (simp add: py_getitem_def v)
  also have "\<dots> = Inr (\<lambda>x. if x \<in> set ks then map_option Val (c x) else (self(k \<mapsto> Val v)) x)"
    using Cons by simp
  also have "(\<lambda>x. if x \<in> set ks then map_option Val (c x) else (self(k \<mapsto> Val v)) x)
           = (\<lambda>x. if x \<in> set (k # ks) then map_option Val (c x) else self x)"
    by (auto simp: v fun_eq_iff)
  finally show ?case .
qed

text \<open>
  Claim C9: when the configuration dictionary lacks one of the required keys, the
  constructor raises the exception naming a missing required key and no object results;
  when it has them all, the constructor returns an object holding the value of every
  required key, the logger, a trader and the market data.
\<close>

theorem C9_required_keys:
  "((\<exists>k \<in> set check_keys. config k = None) \<longrightarrow>
      (\<exists>k \<in> set check_keys. config k = None
          \<and> BackTest_init (Some config) = Inl (ConfigException k)))
   \<and> ((\<forall>k \<in> set check_keys. config k \<noteq> None) \<longrightarrow>
      (\<exists>self. BackTest_init (Some config) = Inr self
          \<and> (\<forall>k \<in> set check_keys. self k = map_option Val (config k))
          \<and> self ''log'' = Some LoggerObj
          \<and> (\<exists>a s d. self ''trader'' = Some (TraderObj a s d))
          \<and> (\<exists>d. self ''datas'' = Some (DatasObj d))))"
proof (intro conjI impI)
  assume "\<exists>k \<in> set check_keys. config k = None"
  then have "first_missing check_keys config \<noteq> None"
    by (simp add: first_missing_None)
  then obtain k where k: "first_missing check_keys config = Some k" by auto
  from first_missing_Some [OF k] k
  show "\<exists>k \<in> set check_keys. config k = None
          \<and> BackTest_init (Some config) = Inl (ConfigException k)"
    by (auto simp: BackTest_init_def)
next
  assume all: "\<forall>k \<in> set check_keys. config k \<noteq> None"
  then have fm: "first_missing check_keys config = None"
    by (simp add: first_missing_None)
  have log: "''log'' \<notin> set check_keys" "''save_file'' \<notin> set check_keys"
    "''trader'' \<notin> set check_keys" "''datas'' \<notin> set check_keys"
    "''next_frequency'' \<notin> set check_keys"
    by (simp_all add: check_keys_def)
  show "\<exists>self. BackTest_init (Some config) = Inr self
          \<and> (\<forall>k \<in> set check_keys. self k = map_option Val (config k))
          \<and> self ''log'' = Some LoggerObj
          \<and> (\<exists>a s d. self ''trader'' = Some (TraderObj a s d))
          \<and> (\<exists>d. self ''datas'' = Some (DatasObj d))"
    using log by (auto simp: BackTest_init_def fm copy_keys_all [OF all] Let_def)
qed

text \<open>
  A configuration with every required key constructs; without \<open>fee_rate\<close> the
  constructor raises for \<open>fee_rate\<close>.
\<close>

theorem C9_required_keys_witness:
  "(\<exists>self. BackTest_init (Some sample_config) = Inr self
         \<and> self ''mode'' = Some (Val ''mode'')
         \<and> self ''strategy'' = Some (Val ''strategy''))
   \<and> (sample_config(''fee_rate'' := None)) ''fee_rate'' = None
   \<and> BackTest_init (Some (sample_config(''fee_rate'' := None))) = Inl (ConfigException ''fee_rate'')"
proof -
  have all: "\<forall>k \<in> set check_keys. sample_config k \<noteq> None"
    by (simp add: sample_config_def)
  have fee: "''fee_rate'' \<in> set check_keys" "''mode'' \<in> set check_keys"
    "''strategy'' \<in> set check_keys"
    by (simp_all add: check_keys_def)
  have some: "\<exists>k \<in> set check_keys. (sample_config(''fee_rate'' := None)) k = None"
    using fee(1) by (intro bexI [of _ "''fee_rate''"]) simp_all
  from C9_required_keys [of sample_config] all
  obtain self where s: "BackTest_init (Some sample_config) = Inr self"
    and v: "\<forall>k \<in> set check_keys. self k = map_option Val (sample_config k)"
    by blast
  have m: "self ''mode'' = Some (Val ''mode'')" "self ''strategy'' = Some (Val ''strategy'')"
    using v fee by (simp_all add: sample_config_def)
  from C9_required_keys [of "sample_config(''fee_rate'' := None)"] some
  obtain k where k: "k \<in> set check_keys" "(sample_config(''fee_rate'' := None)) k = None"
    and r: "BackTest_init (Some (sample_config(''fee_rate'' := None))) = Inl (ConfigException k)"
    by blast
  from k have "k = ''fee_rate''"
    by (simp add: sample_config_def fun_upd_def split: if_splits)
  with r have r': "BackTest_init (Some (sample_config(''fee_rate'' := None))) = Inl (ConfigException ''fee_rate'')"
    by simp
  show ?thesis using all some s m r' by simp
qed

text \<open>
  Claim C10: without a configuration the constructor returns normally; the object has the
  logger as its only attribute, so neither a trader nor market data. The required keys are
  checked only for a dictionary: the empty dictionary raises for the first key, \<open>mode\<close>.
\<close>

theorem C10_no_config:
  "BackTest_init None = Inr [''log'' \<mapsto> LoggerObj]
   \<and> dom [''log'' \<mapsto> (LoggerObj :: 'v pyobj)] = {''log''}
   \<and> [''log'' \<mapsto> (LoggerObj :: 'v pyobj)] ''trader'' = None
   \<and> [''log'' \<mapsto> (LoggerObj :: 'v pyobj)] ''datas'' = None
   \<and> BackTest_init (Some (Map.empty :: string \<rightharpoonup> 'v)) = Inl (ConfigException ''mode'')"
  by (simp add: BackTest_init_def check_keys_def)

end
